theory Spec2Isabelle
  imports Main
begin

section \<open>s3strata: tiered object storage over a bucket pair and a record store\<close>

text \<open>
  The development embeds the Python package \<^verbatim>\<open>s3strata\<close>: the tier resolver of
  \<^verbatim>\<open>config.py\<close>, the gateway of \<^verbatim>\<open>objectstore.py\<close>, the orchestrator of
  \<^verbatim>\<open>file_manager.py\<close> and the record store of \<^verbatim>\<open>examples/sqlalchemy_adapter.py\<close>.
  Python values that may be \<^verbatim>\<open>None\<close> are options, exceptions are the left
  summand of a result, and everything outside the process (the S3 backends, the
  database, the clock, the random source) is a field of an explicit \<open>world\<close>.
  A \<open>string\<close> stands for a Python \<^verbatim>\<open>str\<close> one character per code point, which is
  exact for ASCII keys; \<open>bytes\<close> are a \<open>string\<close> as well.
\<close>

subsection \<open>Enumerations and errors (types.py)\<close>

datatype StorageTier = HOT | COLD

datatype FileVisibility = PUBLIC | PRIVATE

text \<open>
  Both enums mix in \<^verbatim>\<open>str\<close>; \<open>tier_value\<close> is the member's value. An f-string
  renders a member as its value up to CPython 3.10 and as the qualified member name from
  3.11 on, so a message keeps the member as an unrendered part and \<open>render\<close> takes the
  rendering of the interpreter at hand.
\<close>

fun tier_value :: "StorageTier \<Rightarrow> string" where
  "tier_value HOT = ''HOT''"
| "tier_value COLD = ''COLD''"

fun tier_qualname :: "StorageTier \<Rightarrow> string" where
  "tier_qualname HOT = ''StorageTier.HOT''"
| "tier_qualname COLD = ''StorageTier.COLD''"

fun tier_lower :: "StorageTier \<Rightarrow> string" where
  "tier_lower HOT = ''hot''"
| "tier_lower COLD = ''cold''"

datatype fpart = Lit string | Tier StorageTier

fun render_part :: "(StorageTier \<Rightarrow> string) \<Rightarrow> fpart \<Rightarrow> string" where
  "render_part fmt (Lit s) = s"
| "render_part fmt (Tier t) = fmt t"

definition render :: "(StorageTier \<Rightarrow> string) \<Rightarrow> fpart list \<Rightarrow> string" where
  "render fmt parts = concat (map (render_part fmt) parts)"

datatype error =
    ValueError "fpart list"
  | OverflowError
  | TypeError
  | FileNotFoundError string
  | NoSuchKey
  | BackendError
  | NoResultFound
  | IntegrityError

subsection \<open>String helpers\<close>

definition startswith :: "string \<Rightarrow> string \<Rightarrow> bool" where
  "startswith s p = (take (length p) s = p)"

fun contains :: "string \<Rightarrow> string \<Rightarrow> bool" where
  "contains [] p = (p = [])"
| "contains (c # cs) p = (startswith (c # cs) p \<or> contains cs p)"

text \<open>Truthiness of an optional string: \<^verbatim>\<open>None\<close> and \<^verbatim>\<open>""\<close> are false.\<close>

fun truthy :: "string option \<Rightarrow> bool" where
  "truthy None = False"
| "truthy (Some s) = (s \<noteq> [])"

text \<open>\<^verbatim>\<open>x or d\<close> on an optional string.\<close>

fun or_default :: "string option \<Rightarrow> string \<Rightarrow> string" where
  "or_default None d = d"
| "or_default (Some s) d = (if s = [] then d else s)"

text \<open>\<^verbatim>\<open>f"{x}"\<close> of an optional string.\<close>

fun fstr :: "string option \<Rightarrow> string" where
  "fstr None = ''None''"
| "fstr (Some s) = s"

subsection \<open>Configuration (config.py)\<close>

record S3StrataAdvancedOptions =
  default_presigned_url_expiration :: int
  default_storage_tier :: StorageTier
  default_visibility :: FileVisibility

text \<open>
  \<^verbatim>\<open>S3TierConfig\<close>. The prefixes are annotated \<^verbatim>\<open>str\<close>, but \<^verbatim>\<open>get_tier_config\<close>
  stores an optional field of the shared configuration there, so the model keeps them
  optional.
\<close>

record S3TierConfig =
  endpoint :: string
  access_key :: string
  secret_key :: string
  bucket :: string
  port :: int
  use_ssl :: bool
  public_prefix :: "string option"
  private_prefix :: "string option"

record S3StrataConfig =
  cfg_endpoint :: "string option"
  cfg_port :: "int option"
  cfg_use_ssl :: "bool option"
  cfg_access_key :: "string option"
  cfg_secret_key :: "string option"
  hot_bucket :: "string option"
  cold_bucket :: "string option"
  public_hot_prefix :: "string option"
  private_hot_prefix :: "string option"
  public_cold_prefix :: "string option"
  private_cold_prefix :: "string option"
  hot :: "S3TierConfig option"
  cold :: "S3TierConfig option"
  advanced :: S3StrataAdvancedOptions

definition default_advanced :: S3StrataAdvancedOptions where
  "default_advanced =
     \<lparr>default_presigned_url_expiration = 14400, default_storage_tier = HOT,
      default_visibility = PRIVATE\<rparr>"

text \<open>\<^verbatim>\<open>S3StrataConfig()\<close>: every field at its default.\<close>

definition empty_config :: S3StrataConfig where
  "empty_config =
     \<lparr>cfg_endpoint = None, cfg_port = None, cfg_use_ssl = None, cfg_access_key = None,
      cfg_secret_key = None, hot_bucket = None, cold_bucket = None,
      public_hot_prefix = None, private_hot_prefix = None, public_cold_prefix = None,
      private_cold_prefix = None, hot = None, cold = None, advanced = default_advanced\<rparr>"

definition bucket_field :: "StorageTier \<Rightarrow> string" where
  "bucket_field tier = (if tier = HOT then ''hot_bucket'' else ''cold_bucket'')"

definition missing_config_message :: "StorageTier \<Rightarrow> fpart list" where
  "missing_config_message tier =
     [Lit ''Missing S3 configuration for '', Tier tier,
      Lit '' tier. Provide either shared config '',
      Lit ''(endpoint, access_key, secret_key, '', Lit (bucket_field tier), Lit '') '',
      Lit ''or tier-specific config ('', Lit (tier_lower tier), Lit '').'']"

definition missing_bucket_message :: "StorageTier \<Rightarrow> fpart list" where
  "missing_bucket_message tier =
     [Lit ''Missing bucket configuration for '', Tier tier,
      Lit '' tier. Provide either '',
      Lit (bucket_field tier), Lit '' or '', Lit (tier_lower tier), Lit ''.bucket'']"

text \<open>
  The conditional expression binds weaker than \<^verbatim>\<open>or\<close>: for HOT the prefix is the
  shared field as it is, and only the COLD branch falls back to the literal.
\<close>

definition get_tier_config :: "S3StrataConfig \<Rightarrow> StorageTier \<Rightarrow> error + S3TierConfig" where
  "get_tier_config config tier =
     (if tier = HOT \<and> hot config \<noteq> None then Inr (the (hot config))
      else if tier = COLD \<and> cold config \<noteq> None then Inr (the (cold config))
      else if \<not> truthy (cfg_endpoint config) \<or> \<not> truthy (cfg_access_key config)
              \<or> \<not> truthy (cfg_secret_key config)
      then Inl (ValueError (missing_config_message tier))
      else let bucket = (if tier = HOT then hot_bucket config else cold_bucket config) in
        if \<not> truthy bucket then Inl (ValueError (missing_bucket_message tier))
        else Inr
          \<lparr>endpoint = the (cfg_endpoint config),
           access_key = the (cfg_access_key config),
           secret_key = the (cfg_secret_key config),
           bucket = the bucket,
           port = (case cfg_port config of None \<Rightarrow> 443 | Some p \<Rightarrow> p),
           use_ssl = (case cfg_use_ssl config of None \<Rightarrow> True | Some b \<Rightarrow> b),
           public_prefix =
             (if tier = HOT then public_hot_prefix config
              else Some (or_default (public_cold_prefix config) ''public'')),
           private_prefix =
             (if tier = HOT then private_hot_prefix config
              else Some (or_default (private_cold_prefix config) ''private''))\<rparr>)"

definition get_bucket_name :: "S3StrataConfig \<Rightarrow> StorageTier \<Rightarrow> error + string" where
  "get_bucket_name config tier =
     (case get_tier_config config tier of Inl e \<Rightarrow> Inl e | Inr tc \<Rightarrow> Inr (bucket tc))"

definition get_path_prefix ::
  "S3StrataConfig \<Rightarrow> StorageTier \<Rightarrow> FileVisibility \<Rightarrow> error + string option" where
  "get_path_prefix config tier visibility =
     (case get_tier_config config tier of
        Inl e \<Rightarrow> Inl e
      | Inr tier_config \<Rightarrow>
          if visibility = PUBLIC then Inr (public_prefix tier_config)
          else Inr (private_prefix tier_config))"

definition get_default_presigned_url_expiration :: "S3StrataConfig \<Rightarrow> int" where
  "get_default_presigned_url_expiration config =
     default_presigned_url_expiration (advanced config)"

definition get_default_storage_tier :: "S3StrataConfig \<Rightarrow> StorageTier" where
  "get_default_storage_tier config = default_storage_tier (advanced config)"

definition get_default_visibility :: "S3StrataConfig \<Rightarrow> FileVisibility" where
  "get_default_visibility config = default_visibility (advanced config)"

subsection \<open>Records and options (types.py)\<close>

text \<open>
  \<^verbatim>\<open>PhysicalFile.storage_tier\<close> is a \<^verbatim>\<open>StorageTier\<close> or a plain string; identifiers
  are the integers of the record store; a \<^verbatim>\<open>datetime\<close> is a count of microseconds
  since \<^verbatim>\<open>datetime.min\<close>.
\<close>

datatype tier_field = TierEnum StorageTier | TierStr string

record PhysicalFile =
  file_id :: int
  storage_tier :: tier_field
  filename :: string
  path :: string
  hot_until :: "int option"
  created_at :: "int option"
  updated_at :: "int option"

record UploadOptions =
  up_tier :: "StorageTier option"
  up_visibility :: "FileVisibility option"
  up_filename :: "string option"
  up_path_suffix :: "string option"
  up_hot_duration :: "int option"

record GetUrlOptions =
  expires_in :: "int option"

record SetVisibilityOptions =
  sv_visibility :: FileVisibility
  sv_move_file :: bool

record SetTierOptions =
  st_tier :: StorageTier
  st_move_file :: bool
  st_hot_duration :: "int option"

record SetHotDurationOptions =
  duration :: "int option"

record S3Object =
  key :: string
  last_modified :: "int option"
  obj_size :: "int option"
  etag :: "string option"
  storage_class :: "string option"

record OrphanObject = S3Object +
  orphan_tier :: StorageTier
  orphan_bucket :: string

subsection \<open>Dates\<close>

text \<open>
  \<^verbatim>\<open>datetime.now() + timedelta(seconds=d)\<close>: the sum must stay a representable
  \<^verbatim>\<open>datetime\<close> (years 1 to 9999, that is 3652059 days); a \<^verbatim>\<open>timedelta\<close> out of its
  own, wider range fails with the same \<^verbatim>\<open>OverflowError\<close>.
\<close>

definition datetime_limit :: int where
  "datetime_limit = 3652059 * 86400 * 1000000"

definition datetime_add :: "int \<Rightarrow> int \<Rightarrow> error + int" where
  "datetime_add now seconds =
     (let t = now + seconds * 1000000
      in if 0 \<le> t \<and> t < datetime_limit then Inr t else Inl OverflowError)"

subsection \<open>The world outside the process\<close>

text \<open>
  A bucket is addressed by the endpoint URL of the client and the bucket name. Every
  request to a backend or to the database is appended to \<open>calls\<close>; the request number
  \<open>n\<close> fails, without effect, when \<open>faults n\<close> holds. The listing a backend reports is
  an oracle of its own, as are the signer of presigned URLs and the random source.
\<close>

type_synonym bucket_ref = "string \<times> string"

datatype call =
    PutObject bucket_ref string
  | GetObject bucket_ref string
  | DeleteObject bucket_ref string
  | ListObjectsV2 bucket_ref "string option" "string option"
  | DbCreate string
  | DbUpdate int
  | DbDelete int
  | DbFindExpired
  | DbFindAll

record list_response =
  contents :: "S3Object list option"
  is_truncated :: bool
  next_continuation_token :: "string option"

text \<open>A row of table \<^verbatim>\<open>physical_files\<close>; the tier column holds the member's value.\<close>

record PhysicalFileModel =
  row_id :: int
  row_storage_tier :: StorageTier
  row_filename :: string
  row_path :: string
  row_hot_until :: "int option"
  row_created_at :: int
  row_updated_at :: int

record world =
  objects :: "bucket_ref \<times> string \<Rightarrow> string option"
  listing :: "bucket_ref \<Rightarrow> string option \<Rightarrow> string option \<Rightarrow> list_response"
  signer :: "bucket_ref \<Rightarrow> string \<Rightarrow> int \<Rightarrow> string"
  rows :: "PhysicalFileModel list"
  clock :: int
  uuids :: "nat \<Rightarrow> string"
  uuid_count :: nat
  calls :: "call list"
  faults :: "nat \<Rightarrow> bool"
  printed :: "(int \<times> error) list"

definition request :: "call \<Rightarrow> world \<Rightarrow> bool \<times> world" where
  "request c s = (\<not> faults s (length (calls s)), s\<lparr>calls := calls s @ [c]\<rparr>)"

definition datetime_now :: "world \<Rightarrow> int" where
  "datetime_now s = clock s"

definition uuid4 :: "world \<Rightarrow> string \<times> world" where
  "uuid4 s = (uuids s (uuid_count s), s\<lparr>uuid_count := Suc (uuid_count s)\<rparr>)"

subsection \<open>The S3 client\<close>

record s3_client =
  endpoint_url :: string
  aws_access_key_id :: string
  aws_secret_access_key :: string

definition put_object ::
  "s3_client \<Rightarrow> string \<Rightarrow> string \<Rightarrow> string \<Rightarrow> world \<Rightarrow> (error + unit) \<times> world" where
  "put_object client b k body s =
     (case request (PutObject (endpoint_url client, b) k) s of
        (False, s1) \<Rightarrow> (Inl BackendError, s1)
      | (True, s1) \<Rightarrow>
          (Inr (), s1\<lparr>objects := (objects s1)(((endpoint_url client, b), k) \<mapsto> body)\<rparr>))"

definition get_object ::
  "s3_client \<Rightarrow> string \<Rightarrow> string \<Rightarrow> world \<Rightarrow> (error + string) \<times> world" where
  "get_object client b k s =
     (case request (GetObject (endpoint_url client, b) k) s of
        (False, s1) \<Rightarrow> (Inl BackendError, s1)
      | (True, s1) \<Rightarrow>
          (case objects s1 ((endpoint_url client, b), k) of
             None \<Rightarrow> (Inl NoSuchKey, s1)
           | Some body \<Rightarrow> (Inr body, s1)))"

definition delete_object ::
  "s3_client \<Rightarrow> string \<Rightarrow> string \<Rightarrow> world \<Rightarrow> (error + unit) \<times> world" where
  "delete_object client b k s =
     (case request (DeleteObject (endpoint_url client, b) k) s of
        (False, s1) \<Rightarrow> (Inl BackendError, s1)
      | (True, s1) \<Rightarrow>
          (Inr (), s1\<lparr>objects := (objects s1)(((endpoint_url client, b), k) := None)\<rparr>))"

definition list_objects_v2 ::
  "s3_client \<Rightarrow> string \<Rightarrow> string option \<Rightarrow> string option \<Rightarrow> world
     \<Rightarrow> (error + list_response) \<times> world" where
  "list_objects_v2 client b prefix token s =
     (case request (ListObjectsV2 (endpoint_url client, b) prefix token) s of
        (False, s1) \<Rightarrow> (Inl BackendError, s1)
      | (True, s1) \<Rightarrow> (Inr (listing s1 (endpoint_url client, b) prefix token), s1))"

subsection \<open>Object store gateway (objectstore.py)\<close>

definition digit_char :: "nat \<Rightarrow> char" where
  "digit_char n = ''0123456789ABCDEF'' ! n"

fun str_nat :: "nat \<Rightarrow> string" where
  "str_nat n = (if n < 10 then [digit_char n] else str_nat (n div 10) @ [digit_char (n mod 10)])"

declare str_nat.simps [simp del]

definition str_int :: "int \<Rightarrow> string" where
  "str_int i = (if i < 0 then CHR ''-'' # str_nat (nat (- i)) else str_nat (nat i))"

record ObjectStoreService =
  hot_config :: S3TierConfig
  cold_config :: S3TierConfig
  hot_client :: s3_client
  cold_client :: s3_client

definition create_client :: "S3TierConfig \<Rightarrow> s3_client" where
  "create_client tier_config =
     (let protocol = (if use_ssl tier_config then ''https'' else ''http'');
          is_standard_port = ((protocol = ''http'' \<and> port tier_config = 80)
                              \<or> (protocol = ''https'' \<and> port tier_config = 443))
      in \<lparr>endpoint_url =
             (if is_standard_port then protocol @ ''://'' @ endpoint tier_config
              else protocol @ ''://'' @ endpoint tier_config @ '':'' @ str_int (port tier_config)),
           aws_access_key_id = access_key tier_config,
           aws_secret_access_key = secret_key tier_config\<rparr>)"

definition ObjectStoreService_init :: "S3StrataConfig \<Rightarrow> error + ObjectStoreService" where
  "ObjectStoreService_init config =
     (case get_tier_config config HOT of
        Inl e \<Rightarrow> Inl e
      | Inr h \<Rightarrow>
          (case get_tier_config config COLD of
             Inl e \<Rightarrow> Inl e
           | Inr c \<Rightarrow>
               Inr \<lparr>hot_config = h, cold_config = c,
                    hot_client = create_client h, cold_client = create_client c\<rparr>))"

definition get_client :: "ObjectStoreService \<Rightarrow> StorageTier \<Rightarrow> s3_client" where
  "get_client os tier = (if tier = HOT then hot_client os else cold_client os)"

definition get_config :: "ObjectStoreService \<Rightarrow> StorageTier \<Rightarrow> S3TierConfig" where
  "get_config os tier = (if tier = HOT then hot_config os else cold_config os)"

text \<open>The bucket a tier's requests go to.\<close>

definition tier_bucket :: "ObjectStoreService \<Rightarrow> StorageTier \<Rightarrow> bucket_ref" where
  "tier_bucket os tier = (endpoint_url (get_client os tier), bucket (get_config os tier))"

definition objectstore_upload ::
  "ObjectStoreService \<Rightarrow> StorageTier \<Rightarrow> string \<Rightarrow> string \<Rightarrow> world \<Rightarrow> (error + unit) \<times> world" where
  "objectstore_upload os tier p body s =
     put_object (get_client os tier) (bucket (get_config os tier)) p body s"

definition objectstore_download ::
  "ObjectStoreService \<Rightarrow> StorageTier \<Rightarrow> string \<Rightarrow> world \<Rightarrow> (error + string) \<times> world" where
  "objectstore_download os tier p s =
     (case get_object (get_client os tier) (bucket (get_config os tier)) p s of
        (Inl e, s1) \<Rightarrow>
          (Inl (if e = NoSuchKey then FileNotFoundError (''File not found: '' @ p) else e), s1)
      | (Inr body, s1) \<Rightarrow> (Inr body, s1))"

definition objectstore_delete ::
  "ObjectStoreService \<Rightarrow> StorageTier \<Rightarrow> string \<Rightarrow> world \<Rightarrow> (error + unit) \<times> world" where
  "objectstore_delete os tier p s =
     delete_object (get_client os tier) (bucket (get_config os tier)) p s"

definition objectstore_copy ::
  "ObjectStoreService \<Rightarrow> StorageTier \<Rightarrow> string \<Rightarrow> StorageTier \<Rightarrow> string \<Rightarrow> world
     \<Rightarrow> (error + unit) \<times> world" where
  "objectstore_copy os source_tier source_path dest_tier dest_path s =
     (case objectstore_download os source_tier source_path s of
        (Inl e, s1) \<Rightarrow> (Inl e, s1)
      | (Inr body, s1) \<Rightarrow> objectstore_upload os dest_tier dest_path body s1)"

definition objectstore_move ::
  "ObjectStoreService \<Rightarrow> StorageTier \<Rightarrow> string \<Rightarrow> StorageTier \<Rightarrow> string \<Rightarrow> world
     \<Rightarrow> (error + unit) \<times> world" where
  "objectstore_move os source_tier source_path dest_tier dest_path s =
     (case objectstore_copy os source_tier source_path dest_tier dest_path s of
        (Inl e, s1) \<Rightarrow> (Inl e, s1)
      | (Inr u, s1) \<Rightarrow> objectstore_delete os source_tier source_path s1)"

text \<open>
  \<^verbatim>\<open>quote(path, safe='/')\<close>: letters, digits and \<^verbatim>\<open>_.-~/\<close> stay, every other byte
  becomes \<^verbatim>\<open>%XX\<close>.
\<close>

definition quote_char :: "char \<Rightarrow> string" where
  "quote_char c =
     (if c \<in> set (''ABCDEFGHIJKLMNOPQRSTUVWXYZabcdefghijklmnopqrstuvwxyz''
                   @ ''0123456789_.-~/'')
      then [c]
      else [CHR ''%'', digit_char (of_char c div 16), digit_char (of_char c mod 16)])"

definition quote :: "string \<Rightarrow> string" where
  "quote p = concat (map quote_char p)"

definition get_public_url :: "ObjectStoreService \<Rightarrow> StorageTier \<Rightarrow> string \<Rightarrow> string" where
  "get_public_url os tier p =
     (let config = get_config os tier;
          protocol = (if use_ssl config then ''https'' else ''http'');
          port_suffix = (if port config = 443 \<or> port config = 80 then []
                         else '':'' @ str_int (port config))
      in protocol @ ''://'' @ endpoint config @ port_suffix @ ''/'' @ bucket config
           @ ''/'' @ quote p)"

definition get_presigned_url ::
  "ObjectStoreService \<Rightarrow> StorageTier \<Rightarrow> string \<Rightarrow> int \<Rightarrow> world \<Rightarrow> string" where
  "get_presigned_url os tier p expires s = signer s (tier_bucket os tier) p expires"

text \<open>
  The pagination loop of \<^verbatim>\<open>list_objects\<close>. It ends when a page is not truncated and
  runs forever on a backend that keeps answering truncated pages, hence the option.
\<close>

partial_function (option) list_objects_loop ::
  "s3_client \<Rightarrow> string \<Rightarrow> string option \<Rightarrow> S3Object list \<Rightarrow> string option \<Rightarrow> world
     \<Rightarrow> ((error + S3Object list) \<times> world) option" where
  "list_objects_loop client b prefix acc continuation_token s =
     (case list_objects_v2 client b
             (if truthy prefix then prefix else None)
             (if truthy continuation_token then continuation_token else None) s of
        (Inl e, s1) \<Rightarrow> Some (Inl e, s1)
      | (Inr response, s1) \<Rightarrow>
          (let acc1 = (case contents response of None \<Rightarrow> acc | Some items \<Rightarrow> acc @ items)
           in if \<not> is_truncated response then Some (Inr acc1, s1)
              else list_objects_loop client b prefix acc1
                     (next_continuation_token response) s1))"

declare list_objects_loop.simps [code]

definition objectstore_list_objects ::
  "ObjectStoreService \<Rightarrow> StorageTier \<Rightarrow> string option \<Rightarrow> world
     \<Rightarrow> ((error + S3Object list) \<times> world) option" where
  "objectstore_list_objects os tier prefix s =
     list_objects_loop (get_client os tier) (bucket (get_config os tier)) prefix [] None s"

subsection \<open>Record store (examples/sqlalchemy_adapter.py)\<close>

text \<open>
  Each adapter method is one request to the database: it fails without effect or takes
  effect as a whole. The primary key is the next integer above the keys in use, and
  column \<^verbatim>\<open>path\<close> is unique.
\<close>

definition to_dto :: "PhysicalFileModel \<Rightarrow> PhysicalFile" where
  "to_dto model =
     \<lparr>file_id = row_id model, storage_tier = TierEnum (row_storage_tier model),
      filename = row_filename model, path = row_path model,
      hot_until = row_hot_until model, created_at = Some (row_created_at model),
      updated_at = Some (row_updated_at model)\<rparr>"

definition fresh_id :: "PhysicalFileModel list \<Rightarrow> int" where
  "fresh_id rs = fold max (map row_id rs) 0 + 1"

definition adapter_create ::
  "StorageTier \<Rightarrow> string \<Rightarrow> string \<Rightarrow> int option \<Rightarrow> world \<Rightarrow> (error + PhysicalFile) \<times> world" where
  "adapter_create tier name p hu s =
     (case request (DbCreate p) s of
        (False, s1) \<Rightarrow> (Inl BackendError, s1)
      | (True, s1) \<Rightarrow>
          if p \<in> set (map row_path (rows s1)) then (Inl IntegrityError, s1)
          else let model = \<lparr>row_id = fresh_id (rows s1), row_storage_tier = tier,
                             row_filename = name, row_path = p, row_hot_until = hu,
                             row_created_at = datetime_now s1,
                             row_updated_at = datetime_now s1\<rparr>
               in (Inr (to_dto model), s1\<lparr>rows := rows s1 @ [model]\<rparr>))"

text \<open>
  \<^verbatim>\<open>update\<close> assigns a column only when the argument is not \<^verbatim>\<open>None\<close>.
\<close>

definition adapter_update ::
  "int \<Rightarrow> StorageTier option \<Rightarrow> string option \<Rightarrow> int option \<Rightarrow> world
     \<Rightarrow> (error + PhysicalFile) \<times> world" where
  "adapter_update i tier p hu s =
     (case request (DbUpdate i) s of
        (False, s1) \<Rightarrow> (Inl BackendError, s1)
      | (True, s1) \<Rightarrow>
          (case find (\<lambda>r. row_id r = i) (rows s1) of
             None \<Rightarrow> (Inl NoResultFound, s1)
           | Some model \<Rightarrow>
               let m1 = (case tier of None \<Rightarrow> model | Some t \<Rightarrow> model\<lparr>row_storage_tier := t\<rparr>);
                   m2 = (case p of None \<Rightarrow> m1 | Some q \<Rightarrow> m1\<lparr>row_path := q\<rparr>);
                   m3 = (case hu of None \<Rightarrow> m2 | Some h \<Rightarrow> m2\<lparr>row_hot_until := Some h\<rparr>);
                   m4 = m3\<lparr>row_updated_at := datetime_now s1\<rparr>
               in if \<exists>r \<in> set (rows s1). row_id r \<noteq> i \<and> row_path r = row_path m4
                  then (Inl IntegrityError, s1)
                  else (Inr (to_dto m4),
                        s1\<lparr>rows := map (\<lambda>r. if row_id r = i then m4 else r) (rows s1)\<rparr>)))"

definition adapter_delete :: "int \<Rightarrow> world \<Rightarrow> (error + unit) \<times> world" where
  "adapter_delete i s =
     (case request (DbDelete i) s of
        (False, s1) \<Rightarrow> (Inl BackendError, s1)
      | (True, s1) \<Rightarrow>
          (case find (\<lambda>r. row_id r = i) (rows s1) of
             None \<Rightarrow> (Inl NoResultFound, s1)
           | Some model \<Rightarrow> (Inr (), s1\<lparr>rows := filter (\<lambda>r. row_id r \<noteq> i) (rows s1)\<rparr>)))"


definition adapter_find_all :: "world \<Rightarrow> (error + PhysicalFile list) \<times> world" where
  "adapter_find_all s =
     (case request DbFindAll s of
        (False, s1) \<Rightarrow> (Inl BackendError, s1)
      | (True, s1) \<Rightarrow> (Inr (map to_dto (rows s1)), s1))"

subsection \<open>File manager (file_manager.py)\<close>

text \<open>
  The adapter of a \<^verbatim>\<open>FileManager\<close> is the record store of the world; the constructor
  resolves both tiers and fails when either is not configured.
\<close>

record FileManager =
  fm_config :: S3StrataConfig
  fm_objectstore :: ObjectStoreService

definition FileManager_init :: "S3StrataConfig \<Rightarrow> error + FileManager" where
  "FileManager_init config =
     (case ObjectStoreService_init config of
        Inl e \<Rightarrow> Inl e
      | Inr os \<Rightarrow> Inr \<lparr>fm_config = config, fm_objectstore = os\<rparr>)"

definition get_visibility_from_path :: "string \<Rightarrow> error + FileVisibility" where
  "get_visibility_from_path p =
     (if startswith p ''public/'' then Inr PUBLIC
      else if startswith p ''private/'' then Inr PRIVATE
      else Inl (ValueError [Lit ''Invalid path format: '', Lit p]))"

definition build_path ::
  "FileManager \<Rightarrow> StorageTier \<Rightarrow> FileVisibility \<Rightarrow> string \<Rightarrow> error + string" where
  "build_path fm tier visibility path_suffix =
     (case get_path_prefix (fm_config fm) tier visibility of
        Inl e \<Rightarrow> Inl e
      | Inr prefix \<Rightarrow> Inr (fstr prefix @ ''/'' @ path_suffix))"

text \<open>\<^verbatim>\<open>StorageTier(tier)\<close> on a string: the member with that value, or \<^verbatim>\<open>ValueError\<close>.\<close>

definition normalize_tier :: "tier_field \<Rightarrow> error + StorageTier" where
  "normalize_tier tier =
     (case tier of
        TierEnum t \<Rightarrow> Inr t
      | TierStr v \<Rightarrow>
          if v = ''HOT'' then Inr HOT
          else if v = ''COLD'' then Inr COLD
          else Inl (ValueError [Lit v, Lit '' is not a valid StorageTier'']))"

definition upload ::
  "FileManager \<Rightarrow> string \<Rightarrow> UploadOptions \<Rightarrow> world \<Rightarrow> (error + PhysicalFile) \<times> world" where
  "upload fm body options s =
     (let tier = (case up_tier options of
                    Some t \<Rightarrow> t | None \<Rightarrow> get_default_storage_tier (fm_config fm));
          visibility = (case up_visibility options of
                          Some v \<Rightarrow> v | None \<Rightarrow> get_default_visibility (fm_config fm));
          (name, s1) = (if truthy (up_filename options) then (the (up_filename options), s)
                        else uuid4 s);
          (path_suffix, s2) =
             (if truthy (up_path_suffix options) then (the (up_path_suffix options), s1)
              else (case uuid4 s1 of (u, s') \<Rightarrow> (u @ ''-'' @ name, s')))
      in case build_path fm tier visibility path_suffix of
           Inl e \<Rightarrow> (Inl e, s2)
         | Inr full_path \<Rightarrow>
            (case (if tier = HOT \<and> up_hot_duration options \<noteq> None
                   then (case datetime_add (datetime_now s2) (the (up_hot_duration options)) of
                           Inl e \<Rightarrow> Inl e | Inr t \<Rightarrow> Inr (Some t))
                   else Inr None) of
               Inl e \<Rightarrow> (Inl e, s2)
             | Inr hu \<Rightarrow>
                (case objectstore_upload (fm_objectstore fm) tier full_path body s2 of
                   (Inl e, s3) \<Rightarrow> (Inl e, s3)
                 | (Inr u, s3) \<Rightarrow> adapter_create tier name full_path hu s3)))"

definition get_url ::
  "FileManager \<Rightarrow> PhysicalFile \<Rightarrow> GetUrlOptions \<Rightarrow> world \<Rightarrow> error + string" where
  "get_url fm file options s =
     (case normalize_tier (storage_tier file) of
        Inl e \<Rightarrow> Inl e
      | Inr tier \<Rightarrow>
         (case get_visibility_from_path (path file) of
            Inl e \<Rightarrow> Inl e
          | Inr visibility \<Rightarrow>
              if visibility = PUBLIC
              then Inr (get_public_url (fm_objectstore fm) tier (path file))
              else let expires =
                         (case expires_in options of
                            None \<Rightarrow> get_default_presigned_url_expiration (fm_config fm)
                          | Some n \<Rightarrow>
                              if n = 0 then get_default_presigned_url_expiration (fm_config fm)
                              else n)
                   in Inr (get_presigned_url (fm_objectstore fm) tier (path file) expires s)))"

text \<open>\<^verbatim>\<open>len(current_prefix)\<close> raises \<^verbatim>\<open>TypeError\<close> on \<^verbatim>\<open>None\<close>.\<close>

definition set_visibility ::
  "FileManager \<Rightarrow> PhysicalFile \<Rightarrow> SetVisibilityOptions \<Rightarrow> world
     \<Rightarrow> (error + PhysicalFile) \<times> world" where
  "set_visibility fm file options s =
     (case normalize_tier (storage_tier file) of
        Inl e \<Rightarrow> (Inl e, s)
      | Inr tier \<Rightarrow>
         (case get_visibility_from_path (path file) of
            Inl e \<Rightarrow> (Inl e, s)
          | Inr current_visibility \<Rightarrow>
             (let new_visibility = sv_visibility options
              in if current_visibility = new_visibility then (Inr file, s)
                 else
                  (case get_path_prefix (fm_config fm) tier current_visibility of
                     Inl e \<Rightarrow> (Inl e, s)
                   | Inr None \<Rightarrow> (Inl TypeError, s)
                   | Inr (Some current_prefix) \<Rightarrow>
                      (let path_suffix = drop (length current_prefix + 1) (path file)
                       in case build_path fm tier new_visibility path_suffix of
                            Inl e \<Rightarrow> (Inl e, s)
                          | Inr new_path \<Rightarrow>
                             (case (if sv_move_file options
                                    then objectstore_move (fm_objectstore fm) tier (path file)
                                           tier new_path s
                                    else (Inr (), s)) of
                                (Inl e, s1) \<Rightarrow> (Inl e, s1)
                              | (Inr u, s1) \<Rightarrow>
                                  adapter_update (file_id file) None (Some new_path) None s1))))))"

definition set_tier ::
  "FileManager \<Rightarrow> PhysicalFile \<Rightarrow> SetTierOptions \<Rightarrow> world \<Rightarrow> (error + PhysicalFile) \<times> world" where
  "set_tier fm file options s =
     (case normalize_tier (storage_tier file) of
        Inl e \<Rightarrow> (Inl e, s)
      | Inr current_tier \<Rightarrow>
         (let new_tier = st_tier options
          in if current_tier = new_tier then (Inr file, s)
             else
              (case (if new_tier = HOT
                     then (case st_hot_duration options of
                             None \<Rightarrow> Inr (None, False)
                           | Some d \<Rightarrow>
                              (case datetime_add (datetime_now s) d of
                                 Inl e \<Rightarrow> Inl e | Inr t \<Rightarrow> Inr (Some t, True)))
                     else Inr (None, True)) of
                 Inl e \<Rightarrow> (Inl e, s)
               | Inr (hu, update_hot_until) \<Rightarrow>
                  (case (if st_move_file options
                         then objectstore_move (fm_objectstore fm) current_tier (path file)
                                new_tier (path file) s
                         else (Inr (), s)) of
                     (Inl e, s1) \<Rightarrow> (Inl e, s1)
                   | (Inr u, s1) \<Rightarrow>
                       if update_hot_until
                       then adapter_update (file_id file) (Some new_tier) None hu s1
                       else adapter_update (file_id file) (Some new_tier) None None s1))))"

definition delete :: "FileManager \<Rightarrow> PhysicalFile \<Rightarrow> world \<Rightarrow> (error + unit) \<times> world" where
  "delete fm file s =
     (case normalize_tier (storage_tier file) of
        Inl e \<Rightarrow> (Inl e, s)
      | Inr tier \<Rightarrow>
         (case objectstore_delete (fm_objectstore fm) tier (path file) s of
            (Inl e, s1) \<Rightarrow> (Inl e, s1)
          | (Inr u, s1) \<Rightarrow> adapter_delete (file_id file) s1))"

definition set_hot_duration ::
  "FileManager \<Rightarrow> PhysicalFile \<Rightarrow> SetHotDurationOptions \<Rightarrow> world
     \<Rightarrow> (error + PhysicalFile) \<times> world" where
  "set_hot_duration fm file options s =
     (case normalize_tier (storage_tier file) of
        Inl e \<Rightarrow> (Inl e, s)
      | Inr tier \<Rightarrow>
          if tier \<noteq> HOT
          then (Inl (ValueError [Lit ''set_hot_duration only applies to HOT tier files'']), s)
          else
           (case (case duration options of
                    None \<Rightarrow> Inr None
                  | Some d \<Rightarrow>
                      if d = 0 then Inr (Some (datetime_now s))
                      else (case datetime_add (datetime_now s) d of
                              Inl e \<Rightarrow> Inl e | Inr t \<Rightarrow> Inr (Some t))) of
              Inl e \<Rightarrow> (Inl e, s)
            | Inr hu \<Rightarrow> adapter_update (file_id file) None None hu s))"



text \<open>A list comprehension whose element expression may raise.\<close>

fun map_result :: "('a \<Rightarrow> error + 'b) \<Rightarrow> 'a list \<Rightarrow> error + 'b list" where
  "map_result f [] = Inr []"
| "map_result f (x # xs) =
     (case f x of
        Inl e \<Rightarrow> Inl e
      | Inr y \<Rightarrow> (case map_result f xs of Inl e \<Rightarrow> Inl e | Inr ys \<Rightarrow> Inr (y # ys)))"

definition orphan_of :: "S3StrataConfig \<Rightarrow> StorageTier \<Rightarrow> S3Object \<Rightarrow> error + OrphanObject" where
  "orphan_of config tier obj =
     (case get_bucket_name config tier of
        Inl e \<Rightarrow> Inl e
      | Inr b \<Rightarrow>
          Inr \<lparr>key = key obj, last_modified = last_modified obj, obj_size = obj_size obj,
               etag = etag obj, storage_class = storage_class obj,
               orphan_tier = tier, orphan_bucket = b\<rparr>)"

text \<open>
  \<^verbatim>\<open>asyncio.gather\<close> starts the two listings and \<^verbatim>\<open>find_all\<close> in this order; none of
  them is cancelled when another fails, and the first failure in this order is the one
  raised.
\<close>

definition list_orphan_objects ::
  "FileManager \<Rightarrow> string option \<Rightarrow> world \<Rightarrow> ((error + OrphanObject list) \<times> world) option" where
  "list_orphan_objects fm prefix s =
     (case objectstore_list_objects (fm_objectstore fm) HOT prefix s of
        None \<Rightarrow> None
      | Some (r_hot, s1) \<Rightarrow>
         (case objectstore_list_objects (fm_objectstore fm) COLD prefix s1 of
            None \<Rightarrow> None
          | Some (r_cold, s2) \<Rightarrow>
             (case adapter_find_all s2 of
                (r_db, s3) \<Rightarrow>
                  Some
                   (case r_hot of
                      Inl e \<Rightarrow> Inl e
                    | Inr hot_objects \<Rightarrow>
                       (case r_cold of
                          Inl e \<Rightarrow> Inl e
                        | Inr cold_objects \<Rightarrow>
                           (case r_db of
                              Inl e \<Rightarrow> Inl e
                            | Inr db_files \<Rightarrow>
                               (let db_paths = set (map path db_files)
                                in case map_result (orphan_of (fm_config fm) HOT)
                                          (filter (\<lambda>obj. key obj \<notin> db_paths) hot_objects) of
                                     Inl e \<Rightarrow> Inl e
                                   | Inr hot_orphans \<Rightarrow>
                                      (case map_result (orphan_of (fm_config fm) COLD)
                                              (filter (\<lambda>obj. key obj \<notin> db_paths) cold_objects) of
                                         Inl e \<Rightarrow> Inl e
                                       | Inr cold_orphans \<Rightarrow>
                                           Inr (hot_orphans @ cold_orphans))))),
                    s3))))"

subsection \<open>Concrete configurations and worlds\<close>

text \<open>The configuration of \<^verbatim>\<open>example()\<close> in \<^verbatim>\<open>examples/sqlalchemy_adapter.py\<close>.\<close>

definition example_config :: S3StrataConfig where
  "example_config =
     empty_config\<lparr>cfg_endpoint := Some ''s3.amazonaws.com'',
       cfg_access_key := Some ''your-access-key'', cfg_secret_key := Some ''your-secret-key'',
       hot_bucket := Some ''my-hot-bucket'', cold_bucket := Some ''my-cold-bucket''\<rparr>"

definition example_hot :: S3TierConfig where
  "example_hot =
     \<lparr>endpoint = ''s3.amazonaws.com'', access_key = ''your-access-key'',
      secret_key = ''your-secret-key'', bucket = ''my-hot-bucket'', port = 443,
      use_ssl = True, public_prefix = None, private_prefix = None\<rparr>"

definition example_cold :: S3TierConfig where
  "example_cold =
     \<lparr>endpoint = ''s3.amazonaws.com'', access_key = ''your-access-key'',
      secret_key = ''your-secret-key'', bucket = ''my-cold-bucket'', port = 443,
      use_ssl = True, public_prefix = Some ''public'', private_prefix = Some ''private''\<rparr>"

definition example_client :: s3_client where
  "example_client =
     \<lparr>endpoint_url = ''https://s3.amazonaws.com'', aws_access_key_id = ''your-access-key'',
      aws_secret_access_key = ''your-secret-key''\<rparr>"

definition example_fm :: FileManager where
  "example_fm =
     \<lparr>fm_config = example_config,
      fm_objectstore =
        \<lparr>hot_config = example_hot, cold_config = example_cold,
         hot_client = example_client, cold_client = example_client\<rparr>\<rparr>"

definition hot_ref :: bucket_ref where
  "hot_ref = (''https://s3.amazonaws.com'', ''my-hot-bucket'')"

definition cold_ref :: bucket_ref where
  "cold_ref = (''https://s3.amazonaws.com'', ''my-cold-bucket'')"

text \<open>A configuration with one override for both tiers and versioned prefixes.\<close>

definition versioned_tier :: S3TierConfig where
  "versioned_tier =
     \<lparr>endpoint = ''minio.local'', access_key = ''k'', secret_key = ''s'',
      bucket = ''files'', port = 9000, use_ssl = False,
      public_prefix = Some ''public/v2'', private_prefix = Some ''private/v2''\<rparr>"

definition versioned_config :: S3StrataConfig where
  "versioned_config = empty_config\<lparr>hot := Some versioned_tier, cold := Some versioned_tier\<rparr>"

definition versioned_client :: s3_client where
  "versioned_client =
     \<lparr>endpoint_url = ''http://minio.local:9000'', aws_access_key_id = ''k'',
      aws_secret_access_key = ''s''\<rparr>"

definition versioned_fm :: FileManager where
  "versioned_fm =
     \<lparr>fm_config = versioned_config,
      fm_objectstore =
        \<lparr>hot_config = versioned_tier, cold_config = versioned_tier,
         hot_client = versioned_client, cold_client = versioned_client\<rparr>\<rparr>"

text \<open>An empty world at time \<open>1000\<close> in which no request fails.\<close>

definition empty_page :: list_response where
  "empty_page = \<lparr>contents = None, is_truncated = False, next_continuation_token = None\<rparr>"

definition quiet_world :: world where
  "quiet_world =
     \<lparr>objects = (\<lambda>k. None), listing = (\<lambda>b p t. empty_page), signer = (\<lambda>b k n. k),
      rows = [], clock = 1000, uuids = (\<lambda>n. ''u'' @ str_nat n), uuid_count = 0, calls = [],
      faults = (\<lambda>n. False), printed = []\<rparr>"

text \<open>A stored row: a HOT file that expired at time \<open>500\<close>.\<close>

definition expired_row :: "int \<Rightarrow> string \<Rightarrow> PhysicalFileModel" where
  "expired_row i p =
     \<lparr>row_id = i, row_storage_tier = HOT, row_filename = ''report.pdf'', row_path = p,
      row_hot_until = Some 500, row_created_at = 100, row_updated_at = 100\<rparr>"


text \<open>
  A world whose record store holds one expired HOT file, with its object in the HOT
  bucket, and the record the adapter returns for it.
\<close>

definition one_file_world :: world where
  "one_file_world =
     quiet_world\<lparr>rows := [expired_row 1 ''private/a.txt''],
                  objects := [(hot_ref, ''private/a.txt'') \<mapsto> ''data'']\<rparr>"

definition one_file :: PhysicalFile where
  "one_file = to_dto (expired_row 1 ''private/a.txt'')"

definition to_cold :: SetTierOptions where
  "to_cold = \<lparr>st_tier = COLD, st_move_file = True, st_hot_duration = None\<rparr>"

text \<open>A public upload to HOT, and the record it creates under the versioned prefixes.\<close>

definition versioned_upload :: UploadOptions where
  "versioned_upload =
     \<lparr>up_tier = Some HOT, up_visibility = Some PUBLIC, up_filename = Some ''a.txt'',
      up_path_suffix = Some ''a.txt'', up_hot_duration = None\<rparr>"

definition versioned_file :: PhysicalFile where
  "versioned_file =
     \<lparr>file_id = 1, storage_tier = TierEnum HOT, filename = ''a.txt'',
      path = ''public/v2/a.txt'', hot_until = None, created_at = Some 1000,
      updated_at = Some 1000\<rparr>"

text \<open>
  The shared configuration of the example with the custom prefixes \<^verbatim>\<open>"pub"\<close> and
  \<^verbatim>\<open>"priv"\<close> on both tiers, its file manager, and the record of a public upload.
\<close>

definition custom_config :: S3StrataConfig where
  "custom_config =
     example_config\<lparr>public_hot_prefix := Some ''pub'', private_hot_prefix := Some ''priv'',
       public_cold_prefix := Some ''pub'', private_cold_prefix := Some ''priv''\<rparr>"

definition custom_fm :: FileManager where
  "custom_fm =
     \<lparr>fm_config = custom_config,
      fm_objectstore =
        \<lparr>hot_config = example_hot\<lparr>public_prefix := Some ''pub'', private_prefix := Some ''priv''\<rparr>,
         cold_config = example_cold\<lparr>public_prefix := Some ''pub'', private_prefix := Some ''priv''\<rparr>,
         hot_client = example_client, cold_client = example_client\<rparr>\<rparr>"

definition custom_file :: PhysicalFile where
  "custom_file =
     \<lparr>file_id = 1, storage_tier = TierEnum HOT, filename = ''a.txt'',
      path = ''pub/a.txt'', hot_until = None, created_at = Some 1000,
      updated_at = Some 1000\<rparr>"

text \<open>
  The orphan scenario: the HOT bucket lists the keys A, B and C on one page, the COLD
  bucket lists nothing, and the record store holds one record, of path B.
\<close>

definition remote_object :: "string \<Rightarrow> S3Object" where
  "remote_object k =
     \<lparr>key = k, last_modified = Some 900, obj_size = Some 10, etag = None,
      storage_class = Some ''STANDARD''\<rparr>"

definition abc_world :: world where
  "abc_world =
     quiet_world\<lparr>rows := [expired_row 1 ''B''],
       listing := (\<lambda>b p t.
          if b = hot_ref
          then \<lparr>contents = Some [remote_object ''A'', remote_object ''B'', remote_object ''C''],
                is_truncated = False, next_continuation_token = None\<rparr>
          else empty_page)\<rparr>"


section \<open>Tier resolution\<close>

lemma startswith_Cons [simp]:
  "startswith (x # xs) (y # ys) = (x = y \<and> startswith xs ys)"
  by (simp add: startswith_def)

lemma startswith_Nil [simp]: "startswith s []"
  by (simp add: startswith_def)

lemma startswith_Nil_left [simp]: "startswith [] (y # ys) = False"
  by (simp add: startswith_def)

lemma missing_config_message_names:
  assumes "fmt = tier_value \<or> fmt = tier_qualname"
  shows "contains (render fmt (missing_config_message tier)) (tier_value tier)"
    and "contains (render fmt (missing_config_message tier)) ''endpoint''"
    and "contains (render fmt (missing_config_message tier)) ''access_key''"
    and "contains (render fmt (missing_config_message tier)) ''secret_key''"
    and "contains (render fmt (missing_config_message tier)) (bucket_field tier)"
  using assms
  by (cases tier; auto simp: render_def missing_config_message_def bucket_field_def)+

lemma missing_bucket_message_names:
  assumes "fmt = tier_value \<or> fmt = tier_qualname"
  shows "contains (render fmt (missing_bucket_message tier)) (tier_value tier)"
    and "contains (render fmt (missing_bucket_message tier)) (bucket_field tier)"
  using assms
  by (cases tier; auto simp: render_def missing_bucket_message_def bucket_field_def)+

lemma get_tier_config_no_credentials:
  assumes "tier = HOT \<longrightarrow> hot config = None" and "tier = COLD \<longrightarrow> cold config = None"
    and "cfg_endpoint config = None \<or> cfg_access_key config = None
         \<or> cfg_secret_key config = None"
  shows "get_tier_config config tier = Inl (ValueError (missing_config_message tier))"
  using assms by (cases tier) (auto simp: get_tier_config_def)

lemma get_tier_config_no_bucket:
  assumes "tier = HOT \<longrightarrow> hot config = None" and "tier = COLD \<longrightarrow> cold config = None"
    and "(if tier = HOT then hot_bucket config else cold_bucket config) = None"
  shows "get_tier_config config tier = Inl (ValueError (missing_config_message tier))
         \<or> get_tier_config config tier = Inl (ValueError (missing_bucket_message tier))"
  using assms by (cases tier) (auto simp: get_tier_config_def Let_def)

text \<open>
  What shared mode resolves to is, field by field, the shared value or its default;
  the prefixes of HOT are the exception, they are copied without a default.
\<close>

lemma get_tier_config_shared:
  assumes "tier = HOT \<longrightarrow> hot config = None" and "tier = COLD \<longrightarrow> cold config = None"
    and "truthy (cfg_endpoint config)" and "truthy (cfg_access_key config)"
    and "truthy (cfg_secret_key config)"
    and "truthy (if tier = HOT then hot_bucket config else cold_bucket config)"
    and "get_tier_config config tier = Inr tc"
  shows "endpoint tc = the (cfg_endpoint config)"
    and "access_key tc = the (cfg_access_key config)"
    and "secret_key tc = the (cfg_secret_key config)"
    and "bucket tc = the (if tier = HOT then hot_bucket config else cold_bucket config)"
    and "port tc = (case cfg_port config of None \<Rightarrow> 443 | Some p \<Rightarrow> p)"
    and "use_ssl tc = (case cfg_use_ssl config of None \<Rightarrow> True | Some b \<Rightarrow> b)"
    and "tier = COLD \<Longrightarrow> public_prefix tc = Some (or_default (public_cold_prefix config) ''public'')"
    and "tier = COLD \<Longrightarrow> private_prefix tc = Some (or_default (private_cold_prefix config) ''private'')"
    and "tier = HOT \<Longrightarrow> public_prefix tc = public_hot_prefix config"
    and "tier = HOT \<Longrightarrow> private_prefix tc = private_hot_prefix config"
  using assms by (cases tier; auto simp: get_tier_config_def Let_def)+

text \<open>
  Claim C1 (the code departs from it). Shared mode with endpoint, keys and buckets
  present and no prefix field set should resolve HOT to the prefixes \<^verbatim>\<open>"public"\<close> and
  \<^verbatim>\<open>"private"\<close>. On the configuration of the repository's own example the resolved HOT
  tier has the shared endpoint, keys and bucket, port 443 and SSL on, but both prefixes
  are \<^verbatim>\<open>None\<close>; the COLD tier of the same configuration does get the two literals.
\<close>

theorem get_tier_config_hot_prefix_unset:
  "get_tier_config example_config HOT
     = Inr \<lparr>endpoint = ''s3.amazonaws.com'', access_key = ''your-access-key'',
            secret_key = ''your-secret-key'', bucket = ''my-hot-bucket'', port = 443,
            use_ssl = True, public_prefix = None, private_prefix = None\<rparr>
   \<and> get_tier_config example_config COLD
     = Inr \<lparr>endpoint = ''s3.amazonaws.com'', access_key = ''your-access-key'',
            secret_key = ''your-secret-key'', bucket = ''my-cold-bucket'', port = 443,
            use_ssl = True, public_prefix = Some ''public'',
            private_prefix = Some ''private''\<rparr>"
  by (simp add: get_tier_config_def example_config_def empty_config_def)

theorem get_tier_config_hot_prefix_unset_witness:
  "map_sum id public_prefix (get_tier_config example_config HOT) = Inr None
   \<and> map_sum id private_prefix (get_tier_config example_config HOT) = Inr None
   \<and> map_sum id public_prefix (get_tier_config example_config COLD) = Inr (Some ''public'')"
  using get_tier_config_hot_prefix_unset by simp

text \<open>
  Claim C9. Without an override for the requested tier, and with the shared endpoint,
  access key, secret key or the tier's bucket missing, resolving the tier raises
  \<^verbatim>\<open>ValueError\<close> and yields no tier configuration. Under either rendering of the enum
  member the message contains the value of the requested tier and the name of every
  field that is missing.
\<close>

theorem get_tier_config_missing_fields:
  assumes "tier = HOT \<longrightarrow> hot config = None" and "tier = COLD \<longrightarrow> cold config = None"
    and "cfg_endpoint config = None \<or> cfg_access_key config = None
         \<or> cfg_secret_key config = None
         \<or> (if tier = HOT then hot_bucket config else cold_bucket config) = None"
    and "fmt = tier_value \<or> fmt = tier_qualname"
  shows "\<exists>msg. get_tier_config config tier = Inl (ValueError msg)
           \<and> contains (render fmt msg) (tier_value tier)
           \<and> (cfg_endpoint config = None \<longrightarrow> contains (render fmt msg) ''endpoint'')
           \<and> (cfg_access_key config = None \<longrightarrow> contains (render fmt msg) ''access_key'')
           \<and> (cfg_secret_key config = None \<longrightarrow> contains (render fmt msg) ''secret_key'')
           \<and> ((if tier = HOT then hot_bucket config else cold_bucket config) = None
                \<longrightarrow> contains (render fmt msg) (bucket_field tier))"
proof (cases "cfg_endpoint config = None \<or> cfg_access_key config = None
              \<or> cfg_secret_key config = None")
  case True
  have "get_tier_config config tier = Inl (ValueError (missing_config_message tier))"
    using assms(1,2) True by (rule get_tier_config_no_credentials)
  then show ?thesis
    by (intro exI [of _ "missing_config_message tier"] conjI impI)
       (simp_all only: missing_config_message_names [OF assms(4)])
next
  case False
  then have nb: "(if tier = HOT then hot_bucket config else cold_bucket config) = None"
    using assms(3) by auto
  from get_tier_config_no_bucket [OF assms(1,2) nb]
  show ?thesis
  proof
    assume "get_tier_config config tier = Inl (ValueError (missing_config_message tier))"
    then show ?thesis
      by (intro exI [of _ "missing_config_message tier"] conjI impI)
         (simp_all only: missing_config_message_names [OF assms(4)])
  next
    assume "get_tier_config config tier = Inl (ValueError (missing_bucket_message tier))"
    then show ?thesis
      using False
      by (intro exI [of _ "missing_bucket_message tier"] conjI impI)
         (simp_all only: missing_bucket_message_names [OF assms(4)] simp_thms)
  qed
qed

theorem get_tier_config_missing_fields_witness:
  "\<exists>msg. get_tier_config (example_config\<lparr>cold_bucket := None\<rparr>) COLD = Inl (ValueError msg)
         \<and> render tier_qualname msg
            = ''Missing bucket configuration for StorageTier.COLD tier. ''
              @ ''Provide either cold_bucket or cold.bucket''
         \<and> contains (render tier_qualname msg) ''COLD''
         \<and> contains (render tier_qualname msg) ''cold_bucket''"
  using get_tier_config_missing_fields
          [of COLD "example_config\<lparr>cold_bucket := None\<rparr>" tier_qualname]
  by (auto simp: example_config_def empty_config_def bucket_field_def get_tier_config_def
        missing_bucket_message_def render_def)

section \<open>What one request changes\<close>

text \<open>
  A request to a bucket never touches the record store, a request to the record store
  never touches a bucket, and neither changes the clock, the fault schedule or what was
  printed.
\<close>

lemma uuid4_effect:
  assumes "uuid4 s = (u, s')"
  shows "calls s' = calls s" and "rows s' = rows s" and "objects s' = objects s"
    and "faults s' = faults s" and "clock s' = clock s" and "printed s' = printed s"
  using assms by (auto simp: uuid4_def)



lemma delete_object_effect:
  assumes "delete_object client b k s = (r, s')"
  shows "calls s' = calls s @ [DeleteObject (endpoint_url client, b) k]"
    and "rows s' = rows s" and "faults s' = faults s" and "clock s' = clock s"
    and "printed s' = printed s"
    and "faults s (length (calls s)) \<Longrightarrow> r = Inl BackendError \<and> objects s' = objects s"
    and "\<not> faults s (length (calls s)) \<Longrightarrow>
           r = Inr () \<and> objects s' = (objects s)(((endpoint_url client, b), k) := None)"
  using assms by (auto simp: delete_object_def request_def split: if_splits bool.splits)

lemma adapter_create_effect:
  assumes "adapter_create tier name p hu s = (r, s')"
  shows "calls s' = calls s @ [DbCreate p]"
    and "objects s' = objects s" and "faults s' = faults s" and "clock s' = clock s"
    and "printed s' = printed s"
    and "isl r \<Longrightarrow> rows s' = rows s"
    and "r = Inr file \<Longrightarrow>
           path file = p \<and> hot_until file = hu \<and> storage_tier file = TierEnum tier
           \<and> filename file = name \<and> (\<exists>row. rows s' = rows s @ [row] \<and> to_dto row = file)"
  using assms
  by (auto simp: adapter_create_def request_def to_dto_def Let_def
           split: if_splits bool.splits)


lemma find_filter_other:
  assumes "j \<noteq> i"
  shows "find (\<lambda>r. row_id r = j) (filter (\<lambda>r. row_id r \<noteq> i) rs)
           = find (\<lambda>r. row_id r = j) rs"
  using assms by (induction rs) auto

lemma find_row_id:
  "find (\<lambda>r. row_id r = i) rs = Some m \<Longrightarrow> row_id m = i"
  by (induction rs) (auto split: if_splits)


lemma adapter_delete_effect:
  assumes "adapter_delete i s = (r, s')"
  shows "calls s' = calls s @ [DbDelete i]"
    and "objects s' = objects s" and "faults s' = faults s" and "clock s' = clock s"
    and "printed s' = printed s"
    and "isl r \<Longrightarrow> rows s' = rows s"
    and "r = Inr u \<Longrightarrow> rows s' = filter (\<lambda>r. row_id r \<noteq> i) (rows s)"
  using assms
  by (auto simp: adapter_delete_def request_def
           split: if_splits bool.splits option.splits)


lemma objectstore_delete_effect:
  assumes "objectstore_delete os tier p s = (r, s')"
  shows "calls s' = calls s @ [DeleteObject (tier_bucket os tier) p]"
    and "rows s' = rows s" and "faults s' = faults s" and "clock s' = clock s"
    and "printed s' = printed s"
    and "faults s (length (calls s)) \<Longrightarrow> r = Inl BackendError \<and> objects s' = objects s"
    and "\<not> faults s (length (calls s)) \<Longrightarrow>
           r = Inr () \<and> objects s' = (objects s)((tier_bucket os tier, p) := None)"
  using delete_object_effect [OF assms [unfolded objectstore_delete_def]]
  by (simp_all add: tier_bucket_def)



section \<open>Object before record\<close>



text \<open>
  Claim C5. \<^verbatim>\<open>delete\<close> first requests the deletion of the object at the record's path
  in the bucket of its tier. When that request fails the error is the result, the
  adapter is not called and the rows are unchanged; only after it succeeded is the
  adapter's \<^verbatim>\<open>delete\<close> requested. A tier field that is no tier fails before any request.
\<close>

theorem delete_object_then_record:
  assumes "delete fm file s = (r, s')"
  shows "((\<exists>e. normalize_tier (storage_tier file) = Inl e \<and> r = Inl e)
            \<and> calls s' = calls s \<and> rows s' = rows s \<and> objects s' = objects s)
       \<or> (\<exists>tier. normalize_tier (storage_tier file) = Inr tier
            \<and> (let del = DeleteObject (tier_bucket (fm_objectstore fm) tier) (path file)
                in (faults s (length (calls s)) \<and> r = Inl BackendError
                      \<and> calls s' = calls s @ [del] \<and> rows s' = rows s
                      \<and> objects s' = objects s)
                 \<or> (\<not> faults s (length (calls s))
                      \<and> calls s' = calls s @ [del, DbDelete (file_id file)]
                      \<and> objects s' (tier_bucket (fm_objectstore fm) tier, path file) = None
                      \<and> (case r of
                            Inl e \<Rightarrow> rows s' = rows s
                          | Inr u \<Rightarrow>
                              rows s' = filter (\<lambda>row. row_id row \<noteq> file_id file) (rows s)))))"
proof (cases "normalize_tier (storage_tier file)")
  case (Inl e)
  then show ?thesis using assms by (simp add: delete_def)
next
  case (Inr tier)
  obtain r1 s1 where o: "objectstore_delete (fm_objectstore fm) tier (path file) s = (r1, s1)"
    by (cases "objectstore_delete (fm_objectstore fm) tier (path file) s")
  note o1 = objectstore_delete_effect [OF o]
  show ?thesis
  proof (cases "faults s (length (calls s))")
    case True
    then have "r1 = Inl BackendError \<and> objects s1 = objects s" using o1(6) by simp
    moreover from this have "r = Inl BackendError \<and> s' = s1"
      using assms Inr o by (simp add: delete_def)
    ultimately show ?thesis using True Inr o1 by (simp add: Let_def)
  next
    case False
    then have r1: "r1 = Inr () \<and> objects s1 = (objects s)((tier_bucket (fm_objectstore fm) tier, path file) := None)"
      using o1(7) by simp
    then have d: "adapter_delete (file_id file) s1 = (r, s')"
      using assms Inr o by (simp add: delete_def)
    note d1 = adapter_delete_effect [OF d]
    show ?thesis
      using False Inr r1 d1(1,2) d1(6) d1(7) o1(1,2)
      by (cases r) (simp_all add: Let_def)
  qed
qed

theorem delete_object_then_record_witness:
  "fst (delete example_fm (to_dto (expired_row 1 ''private/a.txt''))
          (quiet_world\<lparr>rows := [expired_row 1 ''private/a.txt''],
                       faults := (\<lambda>n. n = 0)\<rparr>)) = Inl BackendError
   \<and> calls (snd (delete example_fm (to_dto (expired_row 1 ''private/a.txt''))
          (quiet_world\<lparr>rows := [expired_row 1 ''private/a.txt''],
                       faults := (\<lambda>n. n = 0)\<rparr>)))
       = [DeleteObject hot_ref ''private/a.txt'']
   \<and> rows (snd (delete example_fm (to_dto (expired_row 1 ''private/a.txt''))
          (quiet_world\<lparr>rows := [expired_row 1 ''private/a.txt''],
                       faults := (\<lambda>n. n = 0)\<rparr>)))
       = [expired_row 1 ''private/a.txt'']"
  using delete_object_then_record
          [of example_fm "to_dto (expired_row 1 ''private/a.txt'')"
              "quiet_world\<lparr>rows := [expired_row 1 ''private/a.txt''],
                           faults := (\<lambda>n. n = 0)\<rparr>",
           OF surjective_pairing]
  by (simp add: quiet_world_def example_fm_def example_hot_def example_client_def
        to_dto_def expired_row_def normalize_tier_def tier_bucket_def get_client_def
        get_config_def hot_ref_def Let_def)

section \<open>Visibility\<close>

text \<open>
  Claim C10. For a record with a valid tier field whose path parses to the requested
  visibility, \<^verbatim>\<open>set_visibility\<close> returns the record it was given and leaves the world as
  it was: no request goes to a bucket (no move) and none to the adapter (no update).
\<close>

theorem set_visibility_same_visibility:
  assumes "normalize_tier (storage_tier file) = Inr tier"
    and "get_visibility_from_path (path file) = Inr (sv_visibility options)"
  shows "set_visibility fm file options s = (Inr file, s)"
  using assms by (simp add: set_visibility_def)

theorem set_visibility_same_visibility_witness:
  "set_visibility example_fm (to_dto (expired_row 1 ''private/a.txt''))
     \<lparr>sv_visibility = PRIVATE, sv_move_file = True\<rparr> quiet_world
   = (Inr (to_dto (expired_row 1 ''private/a.txt'')), quiet_world)"
  using set_visibility_same_visibility
          [of "to_dto (expired_row 1 ''private/a.txt'')" HOT
              "\<lparr>sv_visibility = PRIVATE, sv_move_file = True\<rparr>" example_fm quiet_world]
  by (simp add: to_dto_def expired_row_def normalize_tier_def get_visibility_from_path_def)

section \<open>Clearing the hot-until date\<close>

lemmas example_defs =
  quiet_world_def one_file_world_def one_file_def to_cold_def example_fm_def example_hot_def
  example_cold_def example_client_def to_dto_def expired_row_def hot_ref_def cold_ref_def

lemmas run_defs =
  set_tier_def set_hot_duration_def normalize_tier_def objectstore_move_def
  objectstore_copy_def objectstore_download_def objectstore_upload_def objectstore_delete_def
  get_object_def put_object_def delete_object_def adapter_update_def request_def
  get_client_def get_config_def datetime_now_def datetime_add_def datetime_limit_def Let_def

text \<open>
  The adapter reads a \<^verbatim>\<open>None\<close> argument as "leave the column": an update without a
  date returns, and stores, the date the row had.
\<close>

lemma find_map_same:
  assumes "find (\<lambda>r. row_id r = i) rs = Some m" and "row_id m' = i"
  shows "find (\<lambda>r. row_id r = i) (map (\<lambda>r. if row_id r = i then m' else r) rs) = Some m'"
  using assms by (induction rs) (auto split: if_splits)

lemma adapter_update_keeps_hot_until:
  assumes "adapter_update i tier p None s = (Inr file, s')"
  shows "\<exists>m. find (\<lambda>r. row_id r = i) (rows s) = Some m
           \<and> hot_until file = row_hot_until m
           \<and> map_option row_hot_until (find (\<lambda>r. row_id r = i) (rows s'))
               = Some (row_hot_until m)"
proof -
  obtain m where m: "find (\<lambda>r. row_id r = i) (rows s) = Some m"
    using assms
    by (auto simp: adapter_update_def request_def split: bool.splits option.splits)
  have i: "row_id m = i" using m by (rule find_row_id)
  show ?thesis
    using assms m i
    by (auto simp: adapter_update_def request_def Let_def to_dto_def find_map_same
             split: bool.splits if_splits option.splits)
qed

text \<open>
  Claim C2 (the code departs from it). A HOT record with \<^verbatim>\<open>hot_until\<close> set is moved to
  COLD: the claim wants \<^verbatim>\<open>hot_until\<close> cleared in the returned record and in the stored
  row. The file manager passes \<^verbatim>\<open>hot_until=None\<close> to the adapter for that, which the
  adapter takes for no change. On the one-file world the move succeeds, the row and the
  returned record are COLD, and both keep the date 500.
\<close>

theorem set_tier_cold_keeps_hot_until:
  "fst (set_tier example_fm one_file to_cold one_file_world)
     = Inr \<lparr>file_id = 1, storage_tier = TierEnum COLD, filename = ''report.pdf'',
            path = ''private/a.txt'', hot_until = Some 500, created_at = Some 100,
            updated_at = Some 1000\<rparr>
   \<and> rows (snd (set_tier example_fm one_file to_cold one_file_world))
     = [\<lparr>row_id = 1, row_storage_tier = COLD, row_filename = ''report.pdf'',
         row_path = ''private/a.txt'', row_hot_until = Some 500, row_created_at = 100,
         row_updated_at = 1000\<rparr>]"
  by (simp add: example_defs run_defs)

theorem set_tier_cold_keeps_hot_until_witness:
  "map_sum id hot_until (fst (set_tier example_fm one_file to_cold one_file_world))
     = Inr (Some 500)
   \<and> map row_hot_until (rows (snd (set_tier example_fm one_file to_cold one_file_world)))
     = [Some 500]"
  using set_tier_cold_keeps_hot_until by simp

text \<open>
  Claim C8 (the code departs from it). \<^verbatim>\<open>set_hot_duration\<close> with no duration should
  clear \<^verbatim>\<open>hot_until\<close> of a HOT record in the returned record and in the stored row. It
  sends \<^verbatim>\<open>hot_until=None\<close> to the adapter, so the date 500 stays in both. The other
  parts of the claim hold on the same world: duration 0 sets the date to now (1000),
  duration 60 to now plus sixty seconds, no request goes to a bucket, and a record that
  is not HOT is refused with the world unchanged.
\<close>

theorem set_hot_duration_none_keeps_hot_until:
  "fst (set_hot_duration example_fm one_file \<lparr>duration = None\<rparr> one_file_world)
     = Inr \<lparr>file_id = 1, storage_tier = TierEnum HOT, filename = ''report.pdf'',
            path = ''private/a.txt'', hot_until = Some 500, created_at = Some 100,
            updated_at = Some 1000\<rparr>
   \<and> rows (snd (set_hot_duration example_fm one_file \<lparr>duration = None\<rparr> one_file_world))
     = [\<lparr>row_id = 1, row_storage_tier = HOT, row_filename = ''report.pdf'',
         row_path = ''private/a.txt'', row_hot_until = Some 500, row_created_at = 100,
         row_updated_at = 1000\<rparr>]
   \<and> calls (snd (set_hot_duration example_fm one_file \<lparr>duration = None\<rparr> one_file_world))
     = [DbUpdate 1]
   \<and> map_sum id hot_until
        (fst (set_hot_duration example_fm one_file \<lparr>duration = Some 0\<rparr> one_file_world))
     = Inr (Some 1000)
   \<and> map_sum id hot_until
        (fst (set_hot_duration example_fm one_file \<lparr>duration = Some 60\<rparr> one_file_world))
     = Inr (Some 60001000)
   \<and> set_hot_duration example_fm (one_file\<lparr>storage_tier := TierEnum COLD\<rparr>)
        \<lparr>duration = Some 60\<rparr> one_file_world
     = (Inl (ValueError [Lit ''set_hot_duration only applies to HOT tier files'']),
        one_file_world)"
  by (simp add: example_defs run_defs)

theorem set_hot_duration_none_keeps_hot_until_witness:
  "map_sum id hot_until
     (fst (set_hot_duration example_fm one_file \<lparr>duration = None\<rparr> one_file_world))
     = Inr (Some 500)
   \<and> map row_hot_until
       (rows (snd (set_hot_duration example_fm one_file \<lparr>duration = None\<rparr> one_file_world)))
     = [Some 500]"
  using set_hot_duration_none_keeps_hot_until by simp

section \<open>Paths that do not parse\<close>

text \<open>
  Visibility is read off a path with the two literals \<^verbatim>\<open>"public/"\<close> and
  \<^verbatim>\<open>"private/"\<close>. Whether a path built from a prefix parses depends on the prefix and
  its separator alone, not on the suffix.
\<close>

lemma startswith_separator:
  assumes "c \<notin> set q"
  shows "startswith (a @ c # rest) (q @ [c]) = startswith (a @ [c]) (q @ [c])"
  using assms
proof (induction q arbitrary: a)
  case Nil
  then show ?case by (cases a) simp_all
next
  case (Cons y q)
  then show ?case by (cases a) auto
qed

lemma parse_prefixed_path:
  "get_visibility_from_path (p @ ''/'' @ rest) = 
     (if startswith (p @ ''/'') ''public/'' then Inr PUBLIC
      else if startswith (p @ ''/'') ''private/'' then Inr PRIVATE
      else Inl (ValueError [Lit ''Invalid path format: '', Lit (p @ ''/'' @ rest)]))"
proof -
  have a: "startswith (p @ ''/'' @ rest) ''public/'' = startswith (p @ ''/'') ''public/''"
    using startswith_separator [of "CHR ''/''" "''public''" p rest] by simp
  have b: "startswith (p @ ''/'' @ rest) ''private/'' = startswith (p @ ''/'') ''private/''"
    using startswith_separator [of "CHR ''/''" "''private''" p rest] by simp
  show ?thesis unfolding get_visibility_from_path_def a b by simp
qed

lemma upload_success:
  assumes "upload fm body options s = (Inr file, s')"
  defines "tier \<equiv> (case up_tier options of
                      Some t \<Rightarrow> t | None \<Rightarrow> get_default_storage_tier (fm_config fm))"
    and "visibility \<equiv> (case up_visibility options of
                          Some v \<Rightarrow> v | None \<Rightarrow> get_default_visibility (fm_config fm))"
  shows "\<exists>prefix suffix. get_path_prefix (fm_config fm) tier visibility = Inr prefix
           \<and> path file = fstr prefix @ ''/'' @ suffix
           \<and> storage_tier file = TierEnum tier"
proof -
  obtain name s1 where n: "(if truthy (up_filename options) then (the (up_filename options), s) else uuid4 s) = (name, s1)"
    by (cases "(if truthy (up_filename options) then (the (up_filename options), s) else uuid4 s)")
  obtain suffix s2 where sf: "(if truthy (up_path_suffix options) then (the (up_path_suffix options), s1)
              else (case uuid4 s1 of (u, s') \<Rightarrow> (u @ ''-'' @ name, s'))) = (suffix, s2)"
    by (cases "(if truthy (up_path_suffix options) then (the (up_path_suffix options), s1)
              else (case uuid4 s1 of (u, s') \<Rightarrow> (u @ ''-'' @ name, s')))")
  obtain prefix where p: "get_path_prefix (fm_config fm) tier visibility = Inr prefix"
    using assms(1) n sf unfolding upload_def tier_def visibility_def build_path_def
    by (cases "get_path_prefix (fm_config fm) tier visibility") (simp_all add: Let_def tier_def visibility_def)
  have "\<exists>h s3. adapter_create tier name (fstr prefix @ ''/'' @ suffix) h s3 = (Inr file, s')"
    using assms(1) n sf p unfolding upload_def tier_def visibility_def build_path_def
    by (auto simp: Let_def split: sum.splits prod.splits if_splits)
  then obtain h s3 where c: "adapter_create tier name (fstr prefix @ ''/'' @ suffix) h s3 = (Inr file, s')"
    by blast
  from adapter_create_effect(7) [OF c refl] p show ?thesis by blast
qed

lemmas upload_defs =
  upload_def build_path_def get_path_prefix_def get_tier_config_def
  get_default_storage_tier_def get_default_visibility_def default_advanced_def
  objectstore_upload_def put_object_def adapter_create_def request_def uuid4_def
  fresh_id_def to_dto_def datetime_now_def get_client_def get_config_def Let_def

lemma FileManager_init_example: "FileManager_init example_config = Inr example_fm"
  by (simp add: FileManager_init_def ObjectStoreService_init_def get_tier_config_def
        create_client_def example_config_def empty_config_def example_fm_def example_hot_def
        example_cold_def example_client_def)

lemma FileManager_init_versioned: "FileManager_init versioned_config = Inr versioned_fm"
  by (simp add: FileManager_init_def ObjectStoreService_init_def get_tier_config_def
        create_client_def versioned_config_def empty_config_def versioned_fm_def
        versioned_tier_def versioned_client_def str_int_def str_nat.simps digit_char_def)

text \<open>
  Claim C3 as stated fails: a configured prefix that is not one of the literals can
  still begin with one. With the prefixes \<^verbatim>\<open>"public/v2"\<close> and \<^verbatim>\<open>"private/v2"\<close> the
  uploaded record has the path \<^verbatim>\<open>public/v2/a.txt\<close>, \<^verbatim>\<open>get_url\<close> returns its public
  URL and \<^verbatim>\<open>set_visibility\<close> moves it to \<^verbatim>\<open>private/v2/a.txt\<close>.
\<close>

theorem versioned_prefix_parses:
  "FileManager_init versioned_config = Inr versioned_fm
   \<and> get_path_prefix versioned_config HOT PUBLIC = Inr (Some ''public/v2'')
   \<and> get_path_prefix versioned_config HOT PRIVATE = Inr (Some ''private/v2'')
   \<and> fst (upload versioned_fm ''hello'' versioned_upload quiet_world) = Inr versioned_file
   \<and> path versioned_file = ''public/v2/a.txt''
   \<and> get_url versioned_fm versioned_file \<lparr>expires_in = None\<rparr>
         (snd (upload versioned_fm ''hello'' versioned_upload quiet_world))
       = Inr ''http://minio.local:9000/files/public/v2/a.txt''
   \<and> fst (set_visibility versioned_fm versioned_file
              \<lparr>sv_visibility = PRIVATE, sv_move_file = True\<rparr>
              (snd (upload versioned_fm ''hello'' versioned_upload quiet_world)))
       = Inr (versioned_file\<lparr>path := ''private/v2/a.txt''\<rparr>)"
  by (simp add: FileManager_init_versioned)
     (simp add: upload_defs versioned_upload_def quiet_world_def versioned_fm_def
        versioned_config_def empty_config_def versioned_tier_def versioned_client_def
        versioned_file_def get_url_def set_visibility_def normalize_tier_def
        get_visibility_from_path_def get_public_url_def quote_def quote_char_def
        str_int_def str_nat.simps digit_char_def objectstore_move_def objectstore_copy_def
        objectstore_download_def objectstore_delete_def get_object_def delete_object_def
        adapter_update_def)

text \<open>
  Claim C3, amended. When the prefix resolved for the upload's tier and visibility,
  followed by \<^verbatim>\<open>"/"\<close>, begins with neither \<^verbatim>\<open>"public/"\<close> nor \<^verbatim>\<open>"private/"\<close>, the
  record a successful upload creates has a path that begins with that prefix and
  \<^verbatim>\<open>"/"\<close>, and on that record \<^verbatim>\<open>get_url\<close> and \<^verbatim>\<open>set_visibility\<close> raise the
  invalid-path error in every world, \<^verbatim>\<open>set_visibility\<close> before any request. The witness
  is a public upload under the configured prefix \<^verbatim>\<open>"pub"\<close>: the record has the path
  \<^verbatim>\<open>pub/a.txt\<close> and neither operation accepts it.
\<close>

theorem upload_path_unparsable:
  assumes "upload fm body options s = (Inr file, s')"
    and "get_path_prefix (fm_config fm)
           (case up_tier options of
              Some t \<Rightarrow> t | None \<Rightarrow> get_default_storage_tier (fm_config fm))
           (case up_visibility options of
              Some v \<Rightarrow> v | None \<Rightarrow> get_default_visibility (fm_config fm)) = Inr prefix"
    and "\<not> startswith (fstr prefix @ ''/'') ''public/''"
    and "\<not> startswith (fstr prefix @ ''/'') ''private/''"
  shows "startswith (path file) (fstr prefix @ ''/'')
       \<and> get_url fm file url_options s1
           = Inl (ValueError [Lit ''Invalid path format: '', Lit (path file)])
       \<and> set_visibility fm file visibility_options s1
           = (Inl (ValueError [Lit ''Invalid path format: '', Lit (path file)]), s1)"
proof -
  obtain suffix tier where f: "path file = fstr prefix @ ''/'' @ suffix"
    and t: "storage_tier file = TierEnum tier"
    using upload_success [OF assms(1)] assms(2) by auto
  have v: "get_visibility_from_path (path file)
             = Inl (ValueError [Lit ''Invalid path format: '', Lit (path file)])"
    unfolding f parse_prefixed_path using assms(3,4) by simp
  have "startswith (path file) (fstr prefix @ ''/'')"
    unfolding f by (simp add: startswith_def)
  then show ?thesis
    using v t by (simp add: get_url_def set_visibility_def normalize_tier_def)
qed

theorem upload_path_unparsable_witness:
  "FileManager_init custom_config = Inr custom_fm
   \<and> get_path_prefix custom_config HOT PUBLIC = Inr (Some ''pub'')
   \<and> fst (upload custom_fm ''hello'' versioned_upload quiet_world) = Inr custom_file
   \<and> path custom_file = ''pub/a.txt''
   \<and> get_url custom_fm custom_file \<lparr>expires_in = None\<rparr>
         (snd (upload custom_fm ''hello'' versioned_upload quiet_world))
       = Inl (ValueError [Lit ''Invalid path format: '', Lit ''pub/a.txt''])
   \<and> set_visibility custom_fm custom_file \<lparr>sv_visibility = PRIVATE, sv_move_file = True\<rparr>
         (snd (upload custom_fm ''hello'' versioned_upload quiet_world))
       = (Inl (ValueError [Lit ''Invalid path format: '', Lit ''pub/a.txt'']),
          snd (upload custom_fm ''hello'' versioned_upload quiet_world))"
proof -
  have i: "FileManager_init custom_config = Inr custom_fm"
    by (simp add: FileManager_init_def ObjectStoreService_init_def get_tier_config_def
          create_client_def custom_config_def example_config_def empty_config_def
          custom_fm_def example_hot_def example_cold_def example_client_def)
  have f: "fst (upload custom_fm ''hello'' versioned_upload quiet_world) = Inr custom_file"
    by (simp add: upload_defs versioned_upload_def quiet_world_def custom_fm_def
          custom_config_def example_config_def empty_config_def example_hot_def
          example_client_def custom_file_def)
  have u: "upload custom_fm ''hello'' versioned_upload quiet_world
             = (Inr custom_file, snd (upload custom_fm ''hello'' versioned_upload quiet_world))"
    using f by (simp add: prod_eq_iff)
  have p: "get_path_prefix (fm_config custom_fm)
             (case up_tier versioned_upload of
                Some t \<Rightarrow> t | None \<Rightarrow> get_default_storage_tier (fm_config custom_fm))
             (case up_visibility versioned_upload of
                Some v \<Rightarrow> v | None \<Rightarrow> get_default_visibility (fm_config custom_fm))
           = Inr (Some ''pub'')"
    by (simp add: upload_defs versioned_upload_def custom_fm_def custom_config_def
          example_config_def empty_config_def)
  have q: "get_path_prefix custom_config HOT PUBLIC = Inr (Some ''pub'')"
    using p by (simp add: versioned_upload_def custom_fm_def)
  have a: "\<not> startswith (fstr (Some ''pub'') @ ''/'') ''public/''"
    and b: "\<not> startswith (fstr (Some ''pub'') @ ''/'') ''private/''"
    by simp_all
  from upload_path_unparsable [OF u p a b] i f q
  show ?thesis by (simp add: custom_file_def)
qed

section \<open>Orphan objects\<close>

lemma map_result_total:
  "map_result (\<lambda>x. Inr (g x)) xs = Inr (map g xs)"
  by (induction xs) simp_all

lemma FileManager_init_buckets:
  assumes "FileManager_init config = Inr fm"
  shows "fm_config fm = config"
    and "get_bucket_name config tier = Inr (bucket (get_config (fm_objectstore fm) tier))"
  using assms
  by (cases tier;
      auto simp: FileManager_init_def ObjectStoreService_init_def get_bucket_name_def
                 get_config_def split: sum.splits)+

text \<open>A listing that fits one page ends the pagination loop after one request.\<close>

lemma list_objects_one_page:
  assumes "\<not> faults s (length (calls s))"
    and "listing s (endpoint_url client, b) (if truthy prefix then prefix else None) None = page"
    and "\<not> is_truncated page"
  shows "list_objects_loop client b prefix acc None s
           = Some (Inr (case contents page of None \<Rightarrow> acc | Some items \<Rightarrow> acc @ items),
                   s\<lparr>calls := calls s
                        @ [ListObjectsV2 (endpoint_url client, b)
                             (if truthy prefix then prefix else None) None]\<rparr>)"
  using assms
  by (subst list_objects_loop.simps) (simp add: list_objects_v2_def request_def)

text \<open>
  Claim C6. Let the file manager come from a configuration, let the two listings return
  the HOT and the COLD objects and \<^verbatim>\<open>find_all\<close> the records. Then
  \<^verbatim>\<open>list_orphan_objects\<close> returns, in listing order, the HOT objects and then the COLD
  objects whose key is the path of no record at all, whatever that record's tier, each
  with its own fields, its tier and the bucket of that tier. Per tier the keys returned
  are the listed keys minus the paths of all records. With A, B, C listed in HOT and one
  record of path B the result is A and C, tagged HOT.
\<close>

theorem list_orphan_objects_difference:
  assumes "FileManager_init config = Inr fm"
    and "objectstore_list_objects (fm_objectstore fm) HOT prefix s = Some (Inr hot_objects, s1)"
    and "objectstore_list_objects (fm_objectstore fm) COLD prefix s1
           = Some (Inr cold_objects, s2)"
    and "adapter_find_all s2 = (Inr db_files, s3)"
  defines "tagged \<equiv> (\<lambda>tier obj.
             \<lparr>key = key obj, last_modified = last_modified obj, obj_size = obj_size obj,
              etag = etag obj, storage_class = storage_class obj, orphan_tier = tier,
              orphan_bucket = bucket (get_config (fm_objectstore fm) tier)\<rparr>)"
  shows "\<exists>orphans.
           list_orphan_objects fm prefix s = Some (Inr orphans, s3)
         \<and> orphans
             = map (tagged HOT) (filter (\<lambda>obj. key obj \<notin> path ` set db_files) hot_objects)
               @ map (tagged COLD)
                   (filter (\<lambda>obj. key obj \<notin> path ` set db_files) cold_objects)
         \<and> key ` {x \<in> set orphans. orphan_tier x = HOT}
             = key ` set hot_objects - path ` set db_files
         \<and> key ` {x \<in> set orphans. orphan_tier x = COLD}
             = key ` set cold_objects - path ` set db_files"
proof -
  note b = FileManager_init_buckets [OF assms(1)]
  have h: "orphan_of (fm_config fm) HOT = (\<lambda>obj. Inr (tagged HOT obj))"
    and c: "orphan_of (fm_config fm) COLD = (\<lambda>obj. Inr (tagged COLD obj))"
    by (simp_all add: orphan_of_def b tagged_def fun_eq_iff)
  define orphans where "orphans
             = map (tagged HOT) (filter (\<lambda>obj. key obj \<notin> path ` set db_files) hot_objects)
               @ map (tagged COLD)
                   (filter (\<lambda>obj. key obj \<notin> path ` set db_files) cold_objects)"
  have r: "list_orphan_objects fm prefix s = Some (Inr orphans, s3)"
    unfolding list_orphan_objects_def orphans_def
    by (simp add: assms(2,3,4) h c map_result_total)
  have kh: "key ` {x \<in> set orphans. orphan_tier x = HOT}
             = key ` set hot_objects - path ` set db_files"
    unfolding orphans_def tagged_def by (auto simp: image_iff) force
  have kc: "key ` {x \<in> set orphans. orphan_tier x = COLD}
             = key ` set cold_objects - path ` set db_files"
    unfolding orphans_def tagged_def by (auto simp: image_iff) force
  show ?thesis using r kh kc unfolding orphans_def by blast
qed

theorem list_orphan_objects_difference_witness:
  "map_option (map_sum id (map (\<lambda>x. (key x, orphan_tier x, orphan_bucket x))) \<circ> fst)
     (list_orphan_objects example_fm None abc_world)
   = Some (Inr [(''A'', HOT, ''my-hot-bucket''), (''C'', HOT, ''my-hot-bucket'')])"
proof -
  define s1 where "s1 = abc_world\<lparr>calls := [ListObjectsV2 hot_ref None None]\<rparr>"
  define s2 where "s2 = s1\<lparr>calls := calls s1 @ [ListObjectsV2 cold_ref None None]\<rparr>"
  define s3 where "s3 = s2\<lparr>calls := calls s2 @ [DbFindAll]\<rparr>"
  note i = FileManager_init_example
  have h: "objectstore_list_objects (fm_objectstore example_fm) HOT None abc_world
             = Some (Inr [remote_object ''A'', remote_object ''B'', remote_object ''C''], s1)"
    unfolding objectstore_list_objects_def
    by (subst list_objects_one_page [where page = "listing abc_world hot_ref None None"])
       (simp_all add: abc_world_def quiet_world_def example_fm_def example_client_def
          example_hot_def get_client_def get_config_def hot_ref_def s1_def)
  have c: "objectstore_list_objects (fm_objectstore example_fm) COLD None s1
             = Some (Inr [], s2)"
    unfolding objectstore_list_objects_def
    by (subst list_objects_one_page [where page = empty_page])
       (simp_all add: abc_world_def quiet_world_def example_fm_def example_client_def
          example_cold_def get_client_def get_config_def hot_ref_def cold_ref_def s1_def s2_def
          empty_page_def)
  have d: "adapter_find_all s2 = (Inr [to_dto (expired_row 1 ''B'')], s3)"
    by (simp add: adapter_find_all_def request_def s3_def s2_def s1_def abc_world_def
          quiet_world_def)
  from list_orphan_objects_difference [OF i h c d]
  show ?thesis
    by (auto simp: remote_object_def to_dto_def expired_row_def example_fm_def example_hot_def
          get_config_def)
qed

section \<open>Archiving expired HOT files\<close>













end
